theory Spec2Isabelle
  imports Complex_Main
begin

section \<open>JavaScript values reaching the resolvers\<close>

text \<open>
  The GraphQL layer coerces every argument to the type that \<open>typeDefs\<close> declares for it
  before a resolver runs, so an argument declared \<open>String\<close>, \<open>ID\<close> or \<open>Float\<close> is a value
  of that type, \<open>null\<close>, or not in the argument object at all (\<open>undefined\<close> after
  destructuring). A \<open>Float\<close> is a finite double and is modelled by the rational it denotes;
  the only operation on it is the comparison with 1000.
\<close>

datatype 'a js = Undefined | Null | Val 'a

primrec the_val :: "'a js \<Rightarrow> 'a" where
  \<comment> \<open>only applied where the preceding checks have shown the value to be present\<close>
  "the_val (Val x) = x"

fun js_not :: "string js \<Rightarrow> bool" where
  \<comment> \<open>\<open>!v\<close> for a string-typed \<open>v\<close>: \<open>undefined\<close>, \<open>null\<close> and \<open>""\<close> are falsy\<close>
  "js_not (Val s) = (s = [])"
| "js_not _ = True"

subsection \<open>Strings\<close>

text \<open>
  Strings are sequences of 8-bit characters. \<open>is_space\<close> lists the code points below 256
  that JavaScript counts as white space or line terminator; they are what \<open>trim\<close> strips
  and what \<open>\s\<close> matches.
\<close>

definition is_space :: "char \<Rightarrow> bool" where
  "is_space c = (c \<in> set [CHR 0x09, CHR 0x0A, CHR 0x0B, CHR 0x0C, CHR 0x0D, CHR 0x20, CHR 0xA0])"

definition trim :: "string \<Rightarrow> string" where
  "trim s = rev (dropWhile is_space (rev (dropWhile is_space s)))"

fun blank :: "string js \<Rightarrow> bool" where
  \<comment> \<open>\<open>!v || v.trim() === ""\<close>\<close>
  "blank (Val s) = (s = [] \<or> trim s = [])"
| "blank _ = True"

fun too_short :: "string js \<Rightarrow> bool" where
  \<comment> \<open>\<open>!password || password.length < 6\<close>\<close>
  "too_short (Val s) = (s = [] \<or> length s < 6)"
| "too_short _ = True"

fun salary_rejected :: "rat js \<Rightarrow> bool" where
  \<comment> \<open>\<open>salary === undefined || salary < 1000\<close>; \<open>null < 1000\<close> is \<open>0 < 1000\<close>\<close>
  "salary_rejected Undefined = True"
| "salary_rejected Null = True"
| "salary_rejected (Val n) = (n < 1000)"

subsection \<open>Regular expressions\<close>

datatype regex =
  Zero
| One
| Class "char \<Rightarrow> bool"
| Seq regex regex
| Alt regex regex
| Star regex

fun nullable :: "regex \<Rightarrow> bool" where
  "nullable Zero = False"
| "nullable One = True"
| "nullable (Class P) = False"
| "nullable (Seq r s) = (nullable r \<and> nullable s)"
| "nullable (Alt r s) = (nullable r \<or> nullable s)"
| "nullable (Star r) = True"

fun deriv :: "char \<Rightarrow> regex \<Rightarrow> regex" where
  "deriv c Zero = Zero"
| "deriv c One = Zero"
| "deriv c (Class P) = (if P c then One else Zero)"
| "deriv c (Seq r s) =
     (if nullable r then Alt (Seq (deriv c r) s) (deriv c s) else Seq (deriv c r) s)"
| "deriv c (Alt r s) = Alt (deriv c r) (deriv c s)"
| "deriv c (Star r) = Seq (deriv c r) (Star r)"

fun test :: "regex \<Rightarrow> string \<Rightarrow> bool" where
  \<comment> \<open>\<open>/^r$/.test(s)\<close>: the whole of \<open>s\<close> matches \<open>r\<close>\<close>
  "test r [] = nullable r"
| "test r (c # cs) = test (deriv c r) cs"

definition Lit :: "char \<Rightarrow> regex" where
  "Lit c = Class (\<lambda>x. x = c)"

definition Plus :: "regex \<Rightarrow> regex" where
  "Plus r = Seq r (Star r)"

definition not_space_at :: regex where
  \<comment> \<open>\<open>[^\s@]\<close>\<close>
  "not_space_at = Class (\<lambda>c. \<not> is_space c \<and> c \<noteq> CHR ''@'')"

definition emailRegex :: regex where
  \<comment> \<open>\<open>/^[^\s@]+@[^\s@]+\.[^\s@]+$/\<close>\<close>
  "emailRegex =
     Seq (Plus not_space_at)
       (Seq (Lit CHR ''@'')
         (Seq (Plus not_space_at)
           (Seq (Lit CHR ''.'') (Plus not_space_at))))"

text \<open>
  What a regular expression denotes, and what the specification says of the email's
  shape: \<open>local@domain.tld\<close>, three non-empty parts without white space and without
  \<open>@\<close>. The matcher is compared with both below.
\<close>

inductive_set star :: "string set \<Rightarrow> string set" for A :: "string set" where
  empty: "[] \<in> star A"
| more: "u \<in> A \<Longrightarrow> v \<in> star A \<Longrightarrow> u @ v \<in> star A"

fun lang :: "regex \<Rightarrow> string set" where
  "lang Zero = {}"
| "lang One = {[]}"
| "lang (Class P) = {[c] | c. P c}"
| "lang (Seq r s) = {u @ v | u v. u \<in> lang r \<and> v \<in> lang s}"
| "lang (Alt r s) = lang r \<union> lang s"
| "lang (Star r) = star (lang r)"

definition part_char :: "char \<Rightarrow> bool" where
  "part_char c = (\<not> is_space c \<and> c \<noteq> CHR ''@'')"

definition email_shape :: "string \<Rightarrow> bool" where
  \<comment> \<open>follows the specification's words, not the code\<close>
  "email_shape s =
     (\<exists>l dm t. s = l @ CHR ''@'' # dm @ CHR ''.'' # t \<and> l \<noteq> [] \<and> dm \<noteq> [] \<and> t \<noteq> [] \<and>
        list_all part_char l \<and> list_all part_char dm \<and> list_all part_char t)"

section \<open>Errors, documents and the store\<close>

text \<open>
  Every failure a resolver raises is Apollo's \<open>UserInputError\<close>: a message and, where the
  code passes them, the \<open>invalidArgs\<close> it names. The specification's error kinds are told
  apart by these: \<open>InvalidArgument\<close> names the offending argument in \<open>invalidArgs\<close>,
  \<open>AlreadyExists\<close> is "User already exists", \<open>NotFound\<close> is "User not found" or
  "Employee not found", \<open>InvalidCredential\<close> is "Invalid credentials".
  \<open>MongoServerError\<close> is the store rejecting an insert on a unique index, \<open>CastError\<close> is
  Mongoose refusing a value that it cannot cast to the type of the path it is used for;
  a resolver catches neither, so both reach the caller as they are.
\<close>

datatype error =
  UserInputError string "string list option"
| MongoServerError string
| CastError string

record user =
  username :: string
  email :: string
  password :: string
  created_at :: int
  updated_at :: int

text \<open>
  Modelled from the spec: \<open>models/Employee.js\<close> is not among the sources. The fields are
  those of \<open>type Employee\<close> in \<open>typeDefs\<close> and of the specification's data model; the
  schema adds \<open>_id\<close> (here \<open>mongo_id\<close>) and the two timestamps when a document is created and
  keeps the supplied fields as they are.
\<close>

record employee_fields =
  first_name :: "string js"
  last_name :: "string js"
  email :: "string js"
  gender :: "string js"
  designation :: "string js"
  salary :: "rat js"
  date_of_joining :: "string js"
  department :: "string js"
  employee_photo :: "string js"

record employee = employee_fields +
  mongo_id :: string
  created_at :: int
  updated_at :: int

text \<open>
  The store is Mongoose's, an external collaborator, modelled by what the resolvers ask
  of it: the \<open>User\<close> collection in insertion order, the \<open>Employee\<close> collection by \<open>_id\<close>.
  \<open>env\<close> holds what a call takes from outside: bcrypt (with the salt it draws), the
  clock, and the \<open>ObjectId\<close> generated for a new document.
\<close>

record db =
  users :: "user list"
  employees :: "string \<rightharpoonup> employee"

record env =
  bcrypt_hash :: "string \<Rightarrow> nat \<Rightarrow> string"
  bcrypt_compare :: "string \<Rightarrow> string \<Rightarrow> bool"
  Date_now :: int
  new_ObjectId :: string

definition username_or_email :: "string js \<Rightarrow> string js \<Rightarrow> user \<Rightarrow> bool" where
  \<comment> \<open>\<open>{ $or: [{ username }, { email }] }\<close>; a stored user has a string in both fields, so
      a criterion that is \<open>undefined\<close> or \<open>null\<close> matches none\<close>
  "username_or_email uname mail u = (uname = Val (username u) \<or> mail = Val (user.email u))"

definition findOne :: "user list \<Rightarrow> (user \<Rightarrow> bool) \<Rightarrow> user option" where
  "findOne us P = find P us"

definition save_user :: "db \<Rightarrow> user \<Rightarrow> db \<times> (error + user)" where
  \<comment> \<open>\<open>newUser.save()\<close> under the schema's \<open>unique: true\<close> on username and on email\<close>
  "save_user d u =
     (if \<exists>v \<in> set (users d). username v = username u \<or> user.email v = user.email u
      then (d, Inl (MongoServerError ''E11000 duplicate key error''))
      else (d\<lparr>users := users d @ [u]\<rparr>, Inr u))"

text \<open>
  Modelled from the spec: the schema of \<open>models/Employee.js\<close> is not among the sources, so
  \<open>_id\<close> is the identifier the store assigns, Mongoose's default \<open>ObjectId\<close>. The three
  queries by identifier receive \<open>eid\<close> as the string the client sent and cast it first: a
  string of 24 hexadecimal digits is an \<open>ObjectId\<close>, any other string makes the query fail
  with \<open>CastError\<close> before it reaches the collection. (Drivers older than BSON 5 also take
  a string of 12 characters; nothing below rests on such a string.)
\<close>

definition is_hex :: "char \<Rightarrow> bool" where
  "is_hex c = (c \<in> set ''0123456789abcdefABCDEF'')"

definition is_ObjectId :: "string \<Rightarrow> bool" where
  "is_ObjectId s = (length s = 24 \<and> list_all is_hex s)"

definition findById :: "db \<Rightarrow> string \<Rightarrow> error + employee option" where
  "findById d i = (if is_ObjectId i then Inr (employees d i) else Inl (CastError i))"

definition Employee :: "env \<Rightarrow> employee_fields \<Rightarrow> employee" where
  \<comment> \<open>\<open>new Employee(args)\<close>\<close>
  "Employee e args =
     employee_fields.extend args
       \<lparr>mongo_id = new_ObjectId e, created_at = Date_now e, updated_at = Date_now e\<rparr>"

definition save_employee :: "db \<Rightarrow> employee \<Rightarrow> db \<times> (error + employee)" where
  \<comment> \<open>\<open>newEmployee.save()\<close>; \<open>_id\<close> is unique\<close>
  "save_employee d x =
     (case employees d (mongo_id x) of
        Some _ \<Rightarrow> (d, Inl (MongoServerError ''E11000 duplicate key error''))
      | None \<Rightarrow> (d\<lparr>employees := (employees d)(mongo_id x \<mapsto> x)\<rparr>, Inr x))"

definition supplied :: "'a js \<Rightarrow> 'a js \<Rightarrow> 'a js" where
  \<comment> \<open>one field of \<open>$set\<close>: a key of the update object replaces the stored value (also by
      \<open>null\<close>), a key that is not there leaves it\<close>
  "supplied new old = (case new of Undefined \<Rightarrow> old | _ \<Rightarrow> new)"

definition set_fields :: "employee_fields \<Rightarrow> employee \<Rightarrow> employee" where
  "set_fields upd x =
     x\<lparr>first_name := supplied (first_name upd) (first_name x),
       last_name := supplied (last_name upd) (last_name x),
       email := supplied (email upd) (email x),
       gender := supplied (gender upd) (gender x),
       designation := supplied (designation upd) (designation x),
       salary := supplied (salary upd) (salary x),
       date_of_joining := supplied (date_of_joining upd) (date_of_joining x),
       department := supplied (department upd) (department x),
       employee_photo := supplied (employee_photo upd) (employee_photo x)\<rparr>"

definition findByIdAndUpdate ::
  "db \<Rightarrow> string \<Rightarrow> employee_fields \<Rightarrow> db \<times> (error + employee option)" where
  \<comment> \<open>with \<open>{ new: true }\<close>: the document after the update, \<open>null\<close> when there is none\<close>
  "findByIdAndUpdate d i upd =
     (if \<not> is_ObjectId i then (d, Inl (CastError i))
      else case employees d i of
        None \<Rightarrow> (d, Inr None)
      | Some x \<Rightarrow>
          (d\<lparr>employees := (employees d)(i \<mapsto> set_fields upd x)\<rparr>, Inr (Some (set_fields upd x))))"


section \<open>Resolvers\<close>


definition searchEmployeeByEid :: "db \<Rightarrow> string js \<Rightarrow> error + employee option" where
  "searchEmployeeByEid d eid =
     (if js_not eid
      then Inl (UserInputError ''Employee ID is required'' (Some [''eid'']))
      else findById d (the_val eid))"

definition signup :: "env \<Rightarrow> db \<Rightarrow> string js \<Rightarrow> string js \<Rightarrow> string js \<Rightarrow> db \<times> (error + user)" where
  "signup e d uname mail pw =
     (if blank uname
      then (d, Inl (UserInputError ''Username is required'' (Some [''username''])))
      else if blank mail
      then (d, Inl (UserInputError ''Email is required'' (Some [''email''])))
      else if \<not> test emailRegex (the_val mail)
      then (d, Inl (UserInputError ''Invalid email format'' (Some [''email''])))
      else if too_short pw
      then (d, Inl (UserInputError ''Password must be at least 6 characters long''
                      (Some [''password''])))
      else case findOne (users d) (username_or_email uname mail) of
        Some existingUser \<Rightarrow>
          (d, Inl (UserInputError ''User already exists'' (Some [''username'', ''email''])))
      | None \<Rightarrow>
          let hashedPassword = bcrypt_hash e (the_val pw) 12
          in save_user d
               \<lparr>username = the_val uname, email = the_val mail, password = hashedPassword,
                created_at = Date_now e, updated_at = Date_now e\<rparr>)"

definition addNewEmployee :: "env \<Rightarrow> db \<Rightarrow> employee_fields \<Rightarrow> db \<times> (error + employee)" where
  "addNewEmployee e d args =
     (if blank (first_name args)
      then (d, Inl (UserInputError ''First name is required'' (Some [''first_name''])))
      else if blank (last_name args)
      then (d, Inl (UserInputError ''Last name is required'' (Some [''last_name''])))
      else if blank (designation args)
      then (d, Inl (UserInputError ''Designation is required'' (Some [''designation''])))
      else if salary_rejected (salary args)
      then (d, Inl (UserInputError ''Salary must be at least 1000'' (Some [''salary''])))
      else if js_not (date_of_joining args)
      then (d, Inl (UserInputError ''Date of joining is required'' (Some [''date_of_joining''])))
      else if blank (department args)
      then (d, Inl (UserInputError ''Department is required'' (Some [''department''])))
      else save_employee d (Employee e args))"

definition updateEmployeeByEid ::
  "db \<Rightarrow> string js \<Rightarrow> employee_fields \<Rightarrow> db \<times> (error + employee)" where
  "updateEmployeeByEid d eid updateFields =
     (if js_not eid
      then (d, Inl (UserInputError ''Employee ID is required'' (Some [''eid''])))
      else case findByIdAndUpdate d (the_val eid) updateFields of
        (d', Inl err) \<Rightarrow> (d', Inl err)
      | (d', Inr None) \<Rightarrow> (d', Inl (UserInputError ''Employee not found'' (Some [''eid''])))
      | (d', Inr (Some updatedEmployee)) \<Rightarrow> (d', Inr updatedEmployee))"


section \<open>Sample data\<close>

definition oid1 :: string where
  "oid1 = ''65f0c1a2b3c4d5e6f7a8b9c1''"

definition oid2 :: string where
  "oid2 = ''65f0c1a2b3c4d5e6f7a8b9c2''"

definition oid9 :: string where
  "oid9 = ''65f0c1a2b3c4d5e6f7a8b9c9''"

definition env0 :: env where
  "env0 = \<lparr>bcrypt_hash = (\<lambda>p cost. ''$2a$12$'' @ p), bcrypt_compare = (\<lambda>p h. h = ''$2a$12$'' @ p),
           Date_now = 1700000000000, new_ObjectId = oid2\<rparr>"

definition alice :: user where
  "alice = \<lparr>username = ''alice'', email = ''alice@example.com'', password = ''$2a$12$secret1'',
            created_at = 1600000000000, updated_at = 1600000000000\<rparr>"

definition emp1 :: employee where
  "emp1 = \<lparr>first_name = Val ''A'', last_name = Val ''B'', email = Undefined, gender = Undefined,
           designation = Val ''Eng'', salary = Val 5000, date_of_joining = Val ''2024-01-01'',
           department = Val ''R&D'', employee_photo = Undefined,
           mongo_id = oid1, created_at = 1600000000000, updated_at = 1600000000000\<rparr>"

definition db0 :: db where
  "db0 = \<lparr>users = [], employees = Map.empty\<rparr>"

definition db1 :: db where
  "db1 = \<lparr>users = [alice], employees = [oid1 \<mapsto> emp1]\<rparr>"

definition no_fields :: employee_fields where
  "no_fields = \<lparr>first_name = Undefined, last_name = Undefined, email = Undefined,
     gender = Undefined, designation = Undefined, salary = Undefined,
     date_of_joining = Undefined, department = Undefined, employee_photo = Undefined\<rparr>"

definition args1 :: employee_fields where
  \<comment> \<open>the argument object of the specification's salary scenario\<close>
  "args1 = \<lparr>first_name = Val ''A'', last_name = Val ''B'', email = Undefined, gender = Undefined,
            designation = Val ''Eng'', salary = Val 500, date_of_joining = Val ''2024-01-01'',
            department = Val ''R&D'', employee_photo = Undefined\<rparr>"

section \<open>Auxiliary facts\<close>

lemmas email_simps = emailRegex_def Plus_def Lit_def not_space_at_def is_space_def

lemma trim_Nil_iff: "trim s = [] \<longleftrightarrow> list_all is_space s"
proof
  assume "trim s = []"
  then have "\<forall>c \<in> set (dropWhile is_space s). is_space c"
    by (simp add: trim_def)
  then have "dropWhile is_space s = []"
    by (metis hd_dropWhile hd_in_set)
  then show "list_all is_space s"
    by (simp add: list_all_iff)
next
  assume "list_all is_space s"
  then have "dropWhile is_space s = []"
    by (simp add: list_all_iff)
  then show "trim s = []"
    by (simp add: trim_def del: dropWhile_eq_Nil_conv)
qed

lemma blank_Val: "blank (Val s) \<longleftrightarrow> list_all is_space s"
  using trim_Nil_iff [of s] by auto


lemma findOne_None: "findOne us P = None \<longleftrightarrow> (\<forall>u \<in> set us. \<not> P u)"
  by (auto simp: findOne_def find_None_iff)

lemma supplied_simps [simp]:
  "supplied Undefined old = old" "supplied Null old = Null" "supplied (Val v) old = Val v"
  by (simp_all add: supplied_def)

lemma supplied_other: "new \<noteq> Undefined \<Longrightarrow> supplied new old = new"
  by (cases new) auto


lemma sample_ids:
  "is_ObjectId oid1" "is_ObjectId oid2" "is_ObjectId oid9" "\<not> is_ObjectId ''emp-1''"
  "oid1 \<noteq> oid2" "oid1 \<noteq> oid9" "oid2 \<noteq> oid1" "oid9 \<noteq> oid1" "oid1 \<noteq> []" "oid9 \<noteq> []"
  by (simp_all add: oid1_def oid2_def oid9_def is_ObjectId_def is_hex_def)

subsection \<open>The matcher decides the language, and the email expression the shape\<close>

lemma nullable_lang: "nullable r \<longleftrightarrow> [] \<in> lang r"
  by (induction r) (auto intro: star.empty)

lemma lang_SeqI: "u \<in> lang r \<Longrightarrow> v \<in> lang s \<Longrightarrow> u @ v \<in> lang (Seq r s)"
  by auto

lemma lang_Seq: "w \<in> lang (Seq r s) \<longleftrightarrow> (\<exists>u v. w = u @ v \<and> u \<in> lang r \<and> v \<in> lang s)"
  by auto

lemma star_Cons_split:
  assumes "x \<in> star A" and "x = c # w"
  shows "\<exists>u v. w = u @ v \<and> c # u \<in> A \<and> v \<in> star A"
  using assms
proof (induction arbitrary: w)
  case empty
  then show ?case by simp
next
  case (more u v)
  show ?case
  proof (cases u)
    case Nil
    with more show ?thesis by simp
  next
    case (Cons a u')
    with more.prems have "a = c" and "w = u' @ v" by simp_all
    with more.hyps Cons show ?thesis by blast
  qed
qed

lemma star_Cons: "c # w \<in> star A \<longleftrightarrow> (\<exists>u v. w = u @ v \<and> c # u \<in> A \<and> v \<in> star A)"
proof
  assume "c # w \<in> star A"
  then show "\<exists>u v. w = u @ v \<and> c # u \<in> A \<and> v \<in> star A"
    by (rule star_Cons_split) simp
next
  assume "\<exists>u v. w = u @ v \<and> c # u \<in> A \<and> v \<in> star A"
  then obtain u v where "w = u @ v" "c # u \<in> A" "v \<in> star A" by blast
  then show "c # w \<in> star A"
    using star.more [of "c # u" A v] by simp
qed

lemma lang_deriv: "w \<in> lang (deriv c r) \<longleftrightarrow> c # w \<in> lang r"
proof (induction r arbitrary: w)
  case (Seq r s)
  show ?case
  proof
    assume "w \<in> lang (deriv c (Seq r s))"
    then consider (left) u v where "w = u @ v" "u \<in> lang (deriv c r)" "v \<in> lang s"
      | (right) "nullable r" "w \<in> lang (deriv c s)"
      by (auto split: if_splits)
    then show "c # w \<in> lang (Seq r s)"
    proof cases
      case left
      then have "c # u \<in> lang r" using Seq.IH(1) by simp
      with left(1,3) show ?thesis using lang_SeqI [of "c # u" r v s] by simp
    next
      case right
      then have "[] \<in> lang r" "c # w \<in> lang s" using Seq.IH(2) nullable_lang by simp_all
      then show ?thesis using lang_SeqI [of "[]" r "c # w" s] by simp
    qed
  next
    assume "c # w \<in> lang (Seq r s)"
    then obtain u v where uv: "c # w = u @ v" "u \<in> lang r" "v \<in> lang s" by auto
    show "w \<in> lang (deriv c (Seq r s))"
    proof (cases u)
      case Nil
      with uv have "nullable r" "w \<in> lang (deriv c s)"
        using Seq.IH(2) nullable_lang by simp_all
      then show ?thesis by simp
    next
      case (Cons a u')
      with uv have "w = u' @ v" "u' \<in> lang (deriv c r)" using Seq.IH(1) by simp_all
      with uv(3) show ?thesis using lang_SeqI [of u' "deriv c r" v s] by simp
    qed
  qed
next
  case (Star r)
  show ?case
  proof
    assume "w \<in> lang (deriv c (Star r))"
    then obtain u v where "w = u @ v" "u \<in> lang (deriv c r)" "v \<in> star (lang r)" by auto
    then have "w = u @ v \<and> c # u \<in> lang r \<and> v \<in> star (lang r)" using Star.IH by simp
    then show "c # w \<in> lang (Star r)" unfolding lang.simps star_Cons by blast
  next
    assume "c # w \<in> lang (Star r)"
    then obtain u v where "w = u @ v" "c # u \<in> lang r" "v \<in> star (lang r)"
      unfolding lang.simps star_Cons by blast
    then show "w \<in> lang (deriv c (Star r))"
      using Star.IH lang_SeqI [of u "deriv c r" v "Star r"] by simp
  qed
qed auto

lemma test_lang: "test r s \<longleftrightarrow> s \<in> lang r"
  by (induction s arbitrary: r) (simp_all add: nullable_lang lang_deriv)

lemma star_Class: "w \<in> star {[c] | c. P c} \<longleftrightarrow> list_all P w"
proof
  assume "w \<in> star {[c] | c. P c}"
  then show "list_all P w" by induction auto
next
  assume "list_all P w"
  then show "w \<in> star {[c] | c. P c}"
  proof (induction w)
    case Nil
    show ?case by (rule star.empty)
  next
    case (Cons a w)
    then have "[a] \<in> {[c] | c. P c}" "w \<in> star {[c] | c. P c}" by simp_all
    then have "[a] @ w \<in> star {[c] | c. P c}" by (rule star.more)
    then show ?case by simp
  qed
qed

lemma lang_Plus_Class: "w \<in> lang (Plus (Class P)) \<longleftrightarrow> w \<noteq> [] \<and> list_all P w"
proof
  assume "w \<in> lang (Plus (Class P))"
  then obtain c v where "w = c # v" "P c" "v \<in> star {[c] | c. P c}"
    by (auto simp: Plus_def)
  then show "w \<noteq> [] \<and> list_all P w" by (simp add: star_Class)
next
  assume "w \<noteq> [] \<and> list_all P w"
  then obtain c v where w: "w = c # v" "P c" "list_all P v" by (cases w) auto
  then have "[c] \<in> lang (Class P)" "v \<in> lang (Star (Class P))" by (simp_all add: star_Class)
  then have "[c] @ v \<in> lang (Seq (Class P) (Star (Class P)))" by (rule lang_SeqI)
  with w(1) show "w \<in> lang (Plus (Class P))" by (simp add: Plus_def)
qed

lemma lang_part: "w \<in> lang (Plus not_space_at) \<longleftrightarrow> w \<noteq> [] \<and> list_all part_char w"
proof -
  have "not_space_at = Class part_char"
    by (simp add: not_space_at_def part_char_def [abs_def])
  then show ?thesis using lang_Plus_Class [of w part_char] by simp
qed

lemma lang_Lit: "w \<in> lang (Lit c) \<longleftrightarrow> w = [c]"
  by (auto simp: Lit_def)

lemma test_emailRegex: "test emailRegex s \<longleftrightarrow> email_shape s"
  unfolding test_lang emailRegex_def lang_Seq lang_part lang_Lit email_shape_def
  by (simp, blast)

subsection \<open>Signup stores what it accepts\<close>

text \<open>
  A signup that passes the checks and the lookup is stored: the unique indexes cannot
  reject it, because the lookup has just excluded both collisions.
\<close>

lemma signup_stores:
  assumes "\<not> blank uname" "\<not> blank mail" "test emailRegex (the_val mail)" "\<not> too_short pw"
    and "findOne (users d) (username_or_email uname mail) = None"
  shows "\<exists>u. signup e d uname mail pw = (d\<lparr>users := users d @ [u]\<rparr>, Inr u) \<and>
    username u = the_val uname \<and> user.email u = the_val mail \<and>
    password u = bcrypt_hash e (the_val pw) 12"
proof -
  from assms(1) have un: "uname = Val (the_val uname)" by (cases uname) auto
  from assms(2) have ml: "mail = Val (the_val mail)" by (cases mail) auto
  from assms(5) un ml
  have "\<forall>v \<in> set (users d). \<not> (username v = the_val uname \<or> user.email v = the_val mail)"
    unfolding findOne_None username_or_email_def by metis
  with assms show ?thesis
    by (simp add: signup_def save_user_def Let_def)
qed

section \<open>Signup\<close>

text \<open>
  C1. Every signup call is validated in a fixed order: username non-empty, then email
  non-empty, then the email against the regular expression, then the password's length
  (at least 6). The first check that fails ends the call with a \<open>UserInputError\<close> whose
  \<open>invalidArgs\<close> is exactly the offending argument, whatever the later arguments and the
  store are; the store is returned as it was. In particular a password shorter than 6
  characters, after a valid username and email, fails citing \<open>password\<close>.
  "Non-empty" is the code's test \<open>!v || v.trim() === ""\<close>; the email's shape is
  \<open>email_shape\<close>, which the regular expression decides.
\<close>

theorem signup_validation_order:
  "(blank uname \<longrightarrow>
      signup e d uname mail pw =
        (d, Inl (UserInputError ''Username is required'' (Some [''username''])))) \<and>
   (\<not> blank uname \<and> blank mail \<longrightarrow>
      signup e d uname mail pw =
        (d, Inl (UserInputError ''Email is required'' (Some [''email''])))) \<and>
   (\<not> blank uname \<and> \<not> blank (Val m) \<and> \<not> email_shape m \<longrightarrow>
      signup e d uname (Val m) pw =
        (d, Inl (UserInputError ''Invalid email format'' (Some [''email''])))) \<and>
   (\<not> blank uname \<and> \<not> blank (Val m) \<and> email_shape m \<and> too_short pw \<longrightarrow>
      signup e d uname (Val m) pw =
        (d, Inl (UserInputError ''Password must be at least 6 characters long''
                   (Some [''password''])))) \<and>
   (\<not> blank uname \<and> \<not> blank (Val m) \<and> email_shape m \<and> length p < 6 \<longrightarrow>
      signup e d uname (Val m) (Val p) =
        (d, Inl (UserInputError ''Password must be at least 6 characters long''
                   (Some [''password'']))))"
  by (simp add: signup_def test_emailRegex)

theorem signup_validation_order_witness:
  "signup env0 db1 (Val '' '') (Val ''nobody'') (Val ''abc'') =
     (db1, Inl (UserInputError ''Username is required'' (Some [''username'']))) \<and>
   signup env0 db1 (Val ''bob'') (Val []) (Val ''abc'') =
     (db1, Inl (UserInputError ''Email is required'' (Some [''email'']))) \<and>
   signup env0 db1 (Val ''bob'') (Val ''bob@example'') (Val ''abc'') =
     (db1, Inl (UserInputError ''Invalid email format'' (Some [''email'']))) \<and>
   signup env0 db1 (Val ''bob'') (Val ''bob@example.com'') (Val ''abc'') =
     (db1, Inl (UserInputError ''Password must be at least 6 characters long''
                  (Some [''password''])))"
  using
    signup_validation_order [of "Val '' ''" env0 db1 "Val ''nobody''" "Val ''abc''" "''nobody''" "''abc''"]
    signup_validation_order [of "Val ''bob''" env0 db1 "Val []" "Val ''abc''" "[]" "''abc''"]
    signup_validation_order [of "Val ''bob''" env0 db1 "Val ''bob@example''" "Val ''abc''" "''bob@example''" "''abc''"]
    signup_validation_order [of "Val ''bob''" env0 db1 "Val ''bob@example.com''" "Val ''abc''" "''bob@example.com''" "''abc''"]
  by (simp add: trim_def email_simps test_emailRegex [symmetric])

text \<open>
  C4, as amended. A signup call that passes the four validation checks and whose username
  or email is already that of a stored user fails with "User already exists", for every
  bcrypt and clock, and returns the store as it was; and whenever signup fails, for
  whatever reason, the store is returned as it was.
\<close>

theorem signup_existing:
  "(\<not> blank uname \<and> \<not> blank mail \<and> test emailRegex (the_val mail) \<and> \<not> too_short pw \<and>
    (\<exists>u \<in> set (users d). username u = the_val uname \<or> user.email u = the_val mail) \<longrightarrow>
      signup e d uname mail pw =
        (d, Inl (UserInputError ''User already exists'' (Some [''username'', ''email''])))) \<and>
   (signup e d uname mail pw = (d', Inl err) \<longrightarrow> d' = d)"
proof -
  have a: "\<not> blank uname \<and> \<not> blank mail \<and> test emailRegex (the_val mail) \<and> \<not> too_short pw \<and>
    (\<exists>u \<in> set (users d). username u = the_val uname \<or> user.email u = the_val mail) \<longrightarrow>
      signup e d uname mail pw =
        (d, Inl (UserInputError ''User already exists'' (Some [''username'', ''email''])))"
  proof (intro impI, elim conjE bexE)
    fix u
    assume h: "\<not> blank uname" "\<not> blank mail" "test emailRegex (the_val mail)" "\<not> too_short pw"
      "u \<in> set (users d)" "username u = the_val uname \<or> user.email u = the_val mail"
    from h(1) have un: "uname = Val (the_val uname)" by (cases uname) auto
    from h(2) have ml: "mail = Val (the_val mail)" by (cases mail) auto
    from h(5,6) un ml have "findOne (users d) (username_or_email uname mail) \<noteq> None"
      unfolding findOne_None username_or_email_def by metis
    with h(1-4) show "signup e d uname mail pw =
        (d, Inl (UserInputError ''User already exists'' (Some [''username'', ''email''])))"
      by (auto simp: signup_def)
  qed
  have b: "signup e d uname mail pw = (d', Inl err) \<longrightarrow> d' = d"
    by (auto simp: signup_def save_user_def Let_def split: if_splits option.splits)
  from a b show ?thesis by blast
qed

theorem signup_existing_witness:
  "signup env0 db1 (Val ''alice'') (Val ''other@example.com'') (Val ''secret2'') =
     (db1, Inl (UserInputError ''User already exists'' (Some [''username'', ''email''])))"
  using signup_existing [of "Val ''alice''" "Val ''other@example.com''" "Val ''secret2''" db1 env0]
  by (simp add: db1_def alice_def trim_def email_simps)

text \<open>
  C4, as stated, fails: \<open>alice\<close> is stored under this username and this email, and a
  signup with both and the password "abc" fails on the password check, which comes before
  the lookup, not with "User already exists".
\<close>

theorem signup_existing_counterexample:
  "findOne (users db1) (username_or_email (Val ''alice'') (Val ''alice@example.com'')) = Some alice \<and>
   signup env0 db1 (Val ''alice'') (Val ''alice@example.com'') (Val ''abc'') =
     (db1, Inl (UserInputError ''Password must be at least 6 characters long''
                  (Some [''password'']))) \<and>
   snd (signup env0 db1 (Val ''alice'') (Val ''alice@example.com'') (Val ''abc'')) \<noteq>
     Inl (UserInputError ''User already exists'' (Some [''username'', ''email'']))"
  by (simp add: signup_def db1_def alice_def findOne_def username_or_email_def trim_def email_simps)

section \<open>Login\<close>




section \<open>Employees: search, update, delete\<close>







text \<open>
  C7. An \<open>updateEmployeeByEid\<close> call on a stored record changes only the fields that the
  argument object supplies: every field that is not in it has the value it had, the
  identifier and the timestamps included; every field that is in it has the supplied
  value; the record returned is the one stored under the identifier after the call; and
  no other record, and no user, is touched.
\<close>

theorem update_frame:
  "\<not> js_not eid \<and> findById d (the_val eid) = Inr (Some x) \<longrightarrow>
     (\<exists>d' x'. updateEmployeeByEid d eid upd = (d', Inr x') \<and>
        findById d' (the_val eid) = Inr (Some x') \<and>
        employees d' (the_val eid) = Some x' \<and>
        (first_name upd = Undefined \<longrightarrow> first_name x' = first_name x) \<and>
        (last_name upd = Undefined \<longrightarrow> last_name x' = last_name x) \<and>
        (email upd = Undefined \<longrightarrow> email x' = email x) \<and>
        (gender upd = Undefined \<longrightarrow> gender x' = gender x) \<and>
        (designation upd = Undefined \<longrightarrow> designation x' = designation x) \<and>
        (salary upd = Undefined \<longrightarrow> salary x' = salary x) \<and>
        (date_of_joining upd = Undefined \<longrightarrow> date_of_joining x' = date_of_joining x) \<and>
        (department upd = Undefined \<longrightarrow> department x' = department x) \<and>
        (employee_photo upd = Undefined \<longrightarrow> employee_photo x' = employee_photo x) \<and>
        mongo_id x' = mongo_id x \<and> created_at x' = created_at x \<and> updated_at x' = updated_at x \<and>
        (first_name upd \<noteq> Undefined \<longrightarrow> first_name x' = first_name upd) \<and>
        (last_name upd \<noteq> Undefined \<longrightarrow> last_name x' = last_name upd) \<and>
        (email upd \<noteq> Undefined \<longrightarrow> email x' = email upd) \<and>
        (gender upd \<noteq> Undefined \<longrightarrow> gender x' = gender upd) \<and>
        (designation upd \<noteq> Undefined \<longrightarrow> designation x' = designation upd) \<and>
        (salary upd \<noteq> Undefined \<longrightarrow> salary x' = salary upd) \<and>
        (date_of_joining upd \<noteq> Undefined \<longrightarrow> date_of_joining x' = date_of_joining upd) \<and>
        (department upd \<noteq> Undefined \<longrightarrow> department x' = department upd) \<and>
        (employee_photo upd \<noteq> Undefined \<longrightarrow> employee_photo x' = employee_photo upd) \<and>
        (\<forall>i. i \<noteq> the_val eid \<longrightarrow> findById d' i = findById d i) \<and>
        (\<forall>i. i \<noteq> the_val eid \<longrightarrow> employees d' i = employees d i) \<and>
        users d' = users d)"
  by (auto simp: updateEmployeeByEid_def findByIdAndUpdate_def findById_def set_fields_def
      supplied_other split: if_splits)

theorem update_frame_witness:
  "updateEmployeeByEid db1 (Val oid1) (no_fields\<lparr>salary := Val 6000\<rparr>) =
     (db1\<lparr>employees := [oid1 \<mapsto> emp1\<lparr>salary := Val 6000\<rparr>]\<rparr>, Inr (emp1\<lparr>salary := Val 6000\<rparr>))"
  using update_frame [of "Val oid1" db1 emp1 "no_fields\<lparr>salary := Val 6000\<rparr>"]
  by (simp add: findById_def db1_def no_fields_def updateEmployeeByEid_def
      findByIdAndUpdate_def set_fields_def emp1_def sample_ids)

text \<open>
  C2. The claim is that a partial update never leaves a required field it touches empty
  or below its threshold. The resolver checks \<open>eid\<close> only: on the stored record \<open>emp1\<close> an
  update with an empty \<open>first_name\<close> and a salary of 5 is applied and returned as it
  stands, while \<open>addNewEmployee\<close> rejects the same first name with "First name is required".
\<close>

theorem update_unvalidated:
  "updateEmployeeByEid db1 (Val oid1) (no_fields\<lparr>first_name := Val [], salary := Val 5\<rparr>) =
     (db1\<lparr>employees := [oid1 \<mapsto> emp1\<lparr>first_name := Val [], salary := Val 5\<rparr>]\<rparr>,
      Inr (emp1\<lparr>first_name := Val [], salary := Val 5\<rparr>)) \<and>
   addNewEmployee env0 db1 (args1\<lparr>first_name := Val [], salary := Val 5000\<rparr>) =
     (db1, Inl (UserInputError ''First name is required'' (Some [''first_name''])))"
  by (simp add: updateEmployeeByEid_def findByIdAndUpdate_def db1_def emp1_def no_fields_def
      set_fields_def addNewEmployee_def args1_def sample_ids)




section \<open>Employees: creation\<close>

text \<open>
  C9. An \<open>addNewEmployee\<close> call whose first name, last name and designation pass their
  checks and whose salary is a number below 1000 fails with "Salary must be at least
  1000", naming \<open>salary\<close>, and stores nothing. A call whose six required fields all pass
  stores a new record, under an identifier that was not in use, holding every supplied
  field as supplied, returns it, and leaves the other records as they were; a search by
  the new identifier then finds it. The store accepts the insert when the generated
  \<open>ObjectId\<close> is new.
\<close>

theorem addNewEmployee_salary:
  "(\<not> blank (first_name args) \<and> \<not> blank (last_name args) \<and> \<not> blank (designation args) \<and>
    salary args = Val n \<and> n < 1000 \<longrightarrow>
      addNewEmployee e d args =
        (d, Inl (UserInputError ''Salary must be at least 1000'' (Some [''salary''])))) \<and>
   (\<not> blank (first_name args) \<and> \<not> blank (last_name args) \<and> \<not> blank (designation args) \<and>
    salary args = Val n \<and> 1000 \<le> n \<and> \<not> js_not (date_of_joining args) \<and>
    \<not> blank (department args) \<and> employees d (new_ObjectId e) = None \<longrightarrow>
      (\<exists>d' x. addNewEmployee e d args = (d', Inr x) \<and>
         employees d' (mongo_id x) = Some x \<and> employees d (mongo_id x) = None \<and>
         mongo_id x = new_ObjectId e \<and>
         employee_fields.truncate x = args \<and>
         (\<forall>i. i \<noteq> mongo_id x \<longrightarrow> employees d' i = employees d i) \<and>
         (\<forall>i. i \<noteq> mongo_id x \<longrightarrow> findById d' i = findById d i) \<and>
         (is_ObjectId (new_ObjectId e) \<longrightarrow>
            findById d' (mongo_id x) = Inr (Some x) \<and>
            searchEmployeeByEid d' (Val (mongo_id x)) = Inr (Some x)) \<and>
         users d' = users d))"
  by (auto simp: addNewEmployee_def save_employee_def Employee_def findById_def
      searchEmployeeByEid_def is_ObjectId_def
      employee_fields.truncate_def employee_fields.extend_def)

theorem addNewEmployee_salary_witness:
  "addNewEmployee env0 db1 args1 =
     (db1, Inl (UserInputError ''Salary must be at least 1000'' (Some [''salary''])))  \<and>
   addNewEmployee env0 db1 (args1\<lparr>salary := Val 1000\<rparr>) =
     (db1\<lparr>employees := (employees db1)(oid2 \<mapsto> Employee env0 (args1\<lparr>salary := Val 1000\<rparr>))\<rparr>,
      Inr (Employee env0 (args1\<lparr>salary := Val 1000\<rparr>)))"
  using addNewEmployee_salary [of args1 500 env0 db1]
    addNewEmployee_salary [of "args1\<lparr>salary := Val 1000\<rparr>" 1000 env0 db1]
  by (simp add: args1_def trim_def is_space_def db1_def env0_def sample_ids
      addNewEmployee_def save_employee_def Employee_def employee_fields.extend_def)

section \<open>White space\<close>

text \<open>
  C10, as amended. The non-emptiness checks are trim-based: a string of white space only
  is rejected like the empty string. A signup call whose username is such a string fails
  naming \<open>username\<close>; one whose email is, after a username that passes, fails naming
  \<open>email\<close>. An \<open>addNewEmployee\<close> call in which \<open>first_name\<close>, \<open>last_name\<close>, \<open>designation\<close>
  or \<open>department\<close> is such a string fails naming that field when every check ordered
  before it passes (for \<open>department\<close> these include the salary and the date of joining),
  and in every case fails with a \<open>UserInputError\<close> that names one argument.
\<close>

theorem whitespace_only_rejected:
  "list_all is_space s \<longrightarrow>
   (signup e d (Val s) mail pw =
      (d, Inl (UserInputError ''Username is required'' (Some [''username''])))) \<and>
   (\<not> blank uname \<longrightarrow>
      signup e d uname (Val s) pw =
        (d, Inl (UserInputError ''Email is required'' (Some [''email''])))) \<and>
   (\<exists>msg field. signup e d uname (Val s) pw = (d, Inl (UserInputError msg (Some [field])))) \<and>
   (first_name args = Val s \<longrightarrow>
      addNewEmployee e d args =
        (d, Inl (UserInputError ''First name is required'' (Some [''first_name''])))) \<and>
   (\<not> blank (first_name args) \<and> last_name args = Val s \<longrightarrow>
      addNewEmployee e d args =
        (d, Inl (UserInputError ''Last name is required'' (Some [''last_name''])))) \<and>
   (\<not> blank (first_name args) \<and> \<not> blank (last_name args) \<and> designation args = Val s \<longrightarrow>
      addNewEmployee e d args =
        (d, Inl (UserInputError ''Designation is required'' (Some [''designation''])))) \<and>
   (\<not> blank (first_name args) \<and> \<not> blank (last_name args) \<and> \<not> blank (designation args) \<and>
    \<not> salary_rejected (salary args) \<and> \<not> js_not (date_of_joining args) \<and>
    department args = Val s \<longrightarrow>
      addNewEmployee e d args =
        (d, Inl (UserInputError ''Department is required'' (Some [''department''])))) \<and>
   (first_name args = Val s \<or> last_name args = Val s \<or> designation args = Val s \<or>
    department args = Val s \<longrightarrow>
      (\<exists>msg field. addNewEmployee e d args = (d, Inl (UserInputError msg (Some [field])))))"
  using blank_Val [of s]
  by (auto simp: signup_def addNewEmployee_def simp del: blank.simps)

theorem whitespace_only_rejected_witness:
  "signup env0 db0 (Val ''  '') (Val ''a@b.co'') (Val ''secret1'') =
     (db0, Inl (UserInputError ''Username is required'' (Some [''username'']))) \<and>
   addNewEmployee env0 db0 (args1\<lparr>salary := Val 1000, department := Val ''  ''\<rparr>) =
     (db0, Inl (UserInputError ''Department is required'' (Some [''department''])))"
  using whitespace_only_rejected [of "''  ''" env0 db0 "Val ''a@b.co''" "Val ''secret1''" "Val ''a''"
      "args1\<lparr>salary := Val 1000, department := Val ''  ''\<rparr>"]
  by (simp add: args1_def trim_def is_space_def)

text \<open>
  C10, as stated, fails: in the salary scenario with a department of two spaces the call
  fails naming \<open>salary\<close>, the earlier check, not \<open>department\<close>.
\<close>

theorem whitespace_counterexample:
  "list_all is_space ''  '' \<and>
   addNewEmployee env0 db0 (args1\<lparr>department := Val ''  ''\<rparr>) =
     (db0, Inl (UserInputError ''Salary must be at least 1000'' (Some [''salary''])))"
  by (simp add: addNewEmployee_def args1_def trim_def is_space_def)

end
